theory Spec2Isabelle
  imports Complex_Main
begin

section \<open>Text\<close>

text \<open>
  A Python \<^verbatim>\<open>str\<close> is a sequence of Unicode code points: \<^verbatim>\<open>len\<close> counts code
  points and a slice cuts between code points. Text is therefore a list of code points
  (natural numbers), not of bytes. ASCII literals of the source are written with
  \<open>lit\<close>; the few non-ASCII characters of the source are named constants.
\<close>

type_synonym str = "nat list"

definition lit :: "string \<Rightarrow> str" where
  "lit s = map of_char s"

definition nl :: str where
  "nl = [10]"

definition cross_mark :: str where
  "cross_mark = [10060]"

definition blue_diamond :: str where
  "blue_diamond = [128311]"

definition robot_face :: str where
  "robot_face = [129302]"

definition box_double_horizontal :: nat where
  "box_double_horizontal = 9552"

section \<open>Splitting a long reply (bot.py, lines 266-283)\<close>

text \<open>
  \<^verbatim>\<open>final_response[i:j]\<close> for \<open>0 \<le> i \<le> j\<close>: Python clamps both ends at the length.
\<close>

definition slice :: "'a list \<Rightarrow> nat \<Rightarrow> nat \<Rightarrow> 'a list" where
  "slice xs i j = take (j - i) (drop i xs)"

text \<open>
  \<^verbatim>\<open>for i in range(i0, len(final_response), 4000): ... final_response[i:i+4000]\<close>:
  the list of the slices handed to \<^verbatim>\<open>reply_text\<close>, in order.
\<close>

function split_loop :: "nat \<Rightarrow> 'a list \<Rightarrow> 'a list list" where
  "split_loop i final_response =
     (if i < length final_response
      then slice final_response i (i + 4000) # split_loop (i + 4000) final_response
      else [])"
  by pat_completeness auto
termination
  by (relation "measure (\<lambda>(i, final_response). length final_response - i)") auto

declare split_loop.simps [simp del]

text \<open>
  The arguments of the calls of \<^verbatim>\<open>reply_text\<close> made for a bound
  \<^verbatim>\<open>final_response\<close>: the text of each call, and whether the quick-action keyboard
  (\<^verbatim>\<open>reply_markup\<close>) is attached. Only the unsplit reply carries the keyboard.
\<close>

definition split_message :: "'a list \<Rightarrow> ('a list \<times> bool) list" where
  "split_message final_response =
     (if length final_response > 4000
      then map (\<lambda>fragment. (fragment, False)) (split_loop 0 final_response)
      else [(final_response, True)])"

definition fragments :: "'a list \<Rightarrow> 'a list list" where
  "fragments final_response = map fst (split_message final_response)"

section \<open>Python values, exceptions and the operations the handlers use\<close>

text \<open>
  Values as Python has them at run time: the result of \<^verbatim>\<open>response.json()\<close>, the
  callback data and the entries of \<^verbatim>\<open>context.user_data\<close> are not constrained by any
  type check of the source. A dictionary is an association list read with \<open>map_of\<close>.
\<close>

datatype pyval =
    PyNone
  | PyBool bool
  | PyInt int
  | PyFloat rat
  | PyStr str
  | PyList "pyval list"
  | PyDict "(str \<times> pyval) list"

text \<open>
  Exceptions, all subclasses of \<^verbatim>\<open>Exception\<close>. \<open>LibraryError\<close> stands for any
  exception raised inside a library call (the Gemini SDK, httpx, JSON decoding); its
  argument identifies it. What is not a subclass of \<^verbatim>\<open>Exception\<close>, such as the
  cancellation of the handler's task (\<^verbatim>\<open>asyncio.CancelledError\<close>), is outside this
  type: the \<^verbatim>\<open>except Exception\<close> clauses of the source do not catch it, and the
  adapters and the handler let it escape.
\<close>

datatype exn =
    KeyError pyval
  | IndexError
  | TypeError
  | AttributeError
  | UnboundLocalError
  | LibraryError str

text \<open>Truth value of an optional string: \<^verbatim>\<open>None\<close> and \<^verbatim>\<open>''\<close> are false.\<close>

fun truthy :: "str option \<Rightarrow> bool" where
  "truthy None = False"
| "truthy (Some s) = (s \<noteq> [])"

text \<open>\<^verbatim>\<open>d.get(key, dflt)\<close>\<close>

definition dict_get :: "('k \<rightharpoonup> 'v) \<Rightarrow> 'k \<Rightarrow> 'v \<Rightarrow> 'v" where
  "dict_get d key dflt = (case d key of None \<Rightarrow> dflt | Some v \<Rightarrow> v)"

text \<open>
  \<^verbatim>\<open>v[key]\<close> for a string key: a dictionary looks the key up and raises
  \<^verbatim>\<open>KeyError\<close> when it is absent; every other value raises \<^verbatim>\<open>TypeError\<close>
  (lists and strings want integer indices, the rest is not subscriptable).
\<close>

fun getitem_key :: "pyval \<Rightarrow> str \<Rightarrow> exn + pyval" where
  "getitem_key (PyDict kvs) key =
     (case map_of kvs key of None \<Rightarrow> Inl (KeyError (PyStr key)) | Some v \<Rightarrow> Inr v)"
| "getitem_key v key = Inl TypeError"

text \<open>
  \<^verbatim>\<open>v[0]\<close>: the first element of a list, the first character of a string,
  \<^verbatim>\<open>IndexError\<close> when either is empty; a dictionary decoded from JSON has string keys
  only, so \<^verbatim>\<open>0\<close> is never a key; the rest is not subscriptable.
\<close>

fun getitem_0 :: "pyval \<Rightarrow> exn + pyval" where
  "getitem_0 (PyList []) = Inl IndexError"
| "getitem_0 (PyList (x # xs)) = Inr x"
| "getitem_0 (PyStr []) = Inl IndexError"
| "getitem_0 (PyStr (c # cs)) = Inr (PyStr [c])"
| "getitem_0 (PyDict kvs) = Inl (KeyError (PyInt 0))"
| "getitem_0 v = Inl TypeError"

text \<open>\<^verbatim>\<open>sep.join(parts)\<close>\<close>

fun str_join :: "str \<Rightarrow> str list \<Rightarrow> str" where
  "str_join sep [] = []"
| "str_join sep [x] = x"
| "str_join sep (x # y # ys) = x @ sep @ str_join sep (y # ys)"

text \<open>Sequencing of steps that may raise: the first exception ends the sequence.\<close>

definition bind_exn :: "exn + 'a \<Rightarrow> ('a \<Rightarrow> exn + 'b) \<Rightarrow> exn + 'b" where
  "bind_exn m f = (case m of Inl e \<Rightarrow> Inl e | Inr a \<Rightarrow> f a)"

section \<open>Effects\<close>

text \<open>
  A handler's calls to its collaborators are recorded, in order, as events. Calls to the
  chat transport are recorded and taken to succeed: the transport SDK is a collaborator
  outside the routing core. The fixed texts of the welcome, help, status and confirmation
  replies are represented by the event that sends them.
\<close>

datatype provider = Gemini | Grok

datatype event =
    SendAction
  | AdapterCall provider str
  | GenerateContent str
  | HttpPost str str
  | LogError str
  | ReplyText str bool
  | ReplyWelcome
  | ReplyHelp
  | ReplyStatus bool bool str
  | AnswerQuery
  | EditConfirmation str str

text \<open>
  \<open>SendAction\<close>: \<^verbatim>\<open>update.message.chat.send_action(action="typing")\<close>.
  \<open>AdapterCall p m\<close>: \<^verbatim>\<open>ai_bot.gemini_chat(m)\<close> or \<^verbatim>\<open>ai_bot.grok_chat(m)\<close> is called.
  \<open>GenerateContent m\<close>: the request \<^verbatim>\<open>gemini_model.generate_content(m)\<close>.
  \<open>HttpPost key m\<close>: the POST to the Grok completion endpoint with the bearer key.
  \<open>ReplyText t kb\<close>: \<^verbatim>\<open>update.message.reply_text(t, parse_mode='Markdown')\<close>, with the
  quick-action keyboard when \<open>kb\<close>.
  \<open>EditConfirmation name description\<close>: \<^verbatim>\<open>query.edit_message_text(confirmation_text, ...)\<close>.
\<close>

datatype GenerateContentResponse = GenerateContentResponse (text_of: "exn + str")

record Response =
  status_code :: int
  body :: str
  json :: "exn + pyval"

text \<open>
  What the handlers cannot decide themselves: the answers of the two providers, the
  rendering \<^verbatim>\<open>str(e)\<close> of an exception and \<^verbatim>\<open>str(v)\<close> of a value that is not a string
  (both depend on the Python version), and the time each awaited call takes.
  \<open>text_of\<close> is the property \<^verbatim>\<open>response.text\<close>, which raises when the provider
  blocked the prompt; \<open>json\<close> is \<^verbatim>\<open>response.json()\<close>, which raises on a body that is
  not JSON.
\<close>

record world =
  generate_content :: "str \<Rightarrow> exn + GenerateContentResponse"
  post :: "str \<Rightarrow> str \<Rightarrow> exn + Response"
  str_exc :: "exn \<Rightarrow> str"
  str_value :: "pyval \<Rightarrow> str"
  duration :: "event \<Rightarrow> nat"

text \<open>A value inside an f-string: \<^verbatim>\<open>f"{v}"\<close>.\<close>

definition fstr :: "world \<Rightarrow> pyval \<Rightarrow> str" where
  "fstr w v = (case v of PyStr s \<Rightarrow> s | _ \<Rightarrow> str_value w v)"

definition bind_io ::
  "event list \<times> (exn + 'a) \<Rightarrow> ('a \<Rightarrow> event list \<times> (exn + 'b)) \<Rightarrow> event list \<times> (exn + 'b)" where
  "bind_io m f =
     (case m of
        (evs, Inl e) \<Rightarrow> (evs, Inl e)
      | (evs, Inr a) \<Rightarrow> (case f a of (evs', r) \<Rightarrow> (evs @ evs', r)))"

definition emit :: "event \<Rightarrow> event list \<times> (exn + unit)" where
  "emit ev = ([ev], Inr ())"

definition return_io :: "'a \<Rightarrow> event list \<times> (exn + 'a)" where
  "return_io a = ([], Inr a)"

section \<open>The adapters (class AIChatBot, bot.py lines 19-88)\<close>

datatype GenerativeModel = GenerativeModel str

record AIChatBot =
  telegram_token :: "str option"
  gemini_model :: "GenerativeModel option"
  grok_api_key :: "str option"

text \<open>\<^verbatim>\<open>__init__\<close>, with \<^verbatim>\<open>os.getenv\<close> as a parameter.\<close>

definition AIChatBot_init :: "(string \<Rightarrow> str option) \<Rightarrow> AIChatBot" where
  "AIChatBot_init getenv =
     \<lparr> telegram_token = getenv ''TELEGRAM_BOT_TOKEN'',
       gemini_model =
         (if truthy (getenv ''GEMINI_API_KEY'')
             \<and> getenv ''GEMINI_API_KEY'' \<noteq> Some (lit ''your_gemini_api_key_here'')
          then Some (GenerativeModel (lit ''gemini-pro''))
          else None),
       grok_api_key =
         (if getenv ''GROK_API_KEY'' = Some (lit ''your_grok_api_key_here'')
          then None
          else getenv ''GROK_API_KEY'') \<rparr>"

definition gemini_not_configured :: str where
  "gemini_not_configured =
     cross_mark @ lit '' Gemini API key not configured. Please add GEMINI_API_KEY to environment variables.''"

definition grok_not_configured :: str where
  "grok_not_configured =
     cross_mark @ lit '' Grok API key not configured. Please add GROK_API_KEY to environment variables.''"

text \<open>The body of the \<^verbatim>\<open>try\<close> of \<^verbatim>\<open>gemini_chat\<close> (lines 43-44).\<close>

definition gemini_try :: "world \<Rightarrow> str \<Rightarrow> event list \<times> (exn + str)" where
  "gemini_try w message =
     ([GenerateContent message], bind_exn (generate_content w message) text_of)"

definition gemini_chat :: "AIChatBot \<Rightarrow> world \<Rightarrow> str \<Rightarrow> event list \<times> (exn + str)" where
  "gemini_chat self w message =
     (case gemini_model self of
        None \<Rightarrow> ([], Inr gemini_not_configured)
      | Some model \<Rightarrow>
          (case gemini_try w message of
             (evs, Inr response_text) \<Rightarrow> (evs, Inr response_text)
           | (evs, Inl e) \<Rightarrow>
               (evs @ [LogError (lit ''Gemini Error: '' @ str_exc w e)],
                Inr (cross_mark @ lit '' Gemini Error: '' @ str_exc w e))))"

text \<open>\<^verbatim>\<open>data['choices'][0]['message']['content']\<close> (line 82).\<close>

definition content_of :: "pyval \<Rightarrow> exn + pyval" where
  "content_of data =
     bind_exn (getitem_key data (lit ''choices'')) (\<lambda>choices.
     bind_exn (getitem_0 choices) (\<lambda>choice.
     bind_exn (getitem_key choice (lit ''message'')) (\<lambda>msg.
     getitem_key msg (lit ''content''))))"

text \<open>
  The body of the \<^verbatim>\<open>try\<close> of \<^verbatim>\<open>grok_chat\<close> (lines 55-84). The value returned on
  status 200 is whatever \<open>content_of\<close> finds; no check is made that it is a string.
\<close>

definition grok_try :: "world \<Rightarrow> str \<Rightarrow> str \<Rightarrow> event list \<times> (exn + pyval)" where
  "grok_try w key message =
     ([HttpPost key message],
      bind_exn (post w key message) (\<lambda>response.
        if status_code response = 200
        then bind_exn (json response) content_of
        else Inr (PyStr (cross_mark @ lit '' Grok API Error: ''
                         @ fstr w (PyInt (status_code response)) @ lit '' - ''
                         @ body response))))"

definition grok_chat :: "AIChatBot \<Rightarrow> world \<Rightarrow> str \<Rightarrow> event list \<times> (exn + pyval)" where
  "grok_chat self w message =
     (case grok_api_key self of
        None \<Rightarrow> ([], Inr (PyStr grok_not_configured))
      | Some key \<Rightarrow>
          if \<not> truthy (Some key)
          then ([], Inr (PyStr grok_not_configured))
          else
            (case grok_try w key message of
               (evs, Inr v) \<Rightarrow> (evs, Inr v)
             | (evs, Inl e) \<Rightarrow>
                 (evs @ [LogError (lit ''Grok Error: '' @ str_exc w e)],
                  Inr (PyStr (cross_mark @ lit '' Grok Error: '' @ str_exc w e)))))"

text \<open>
  The availability tests of \<^verbatim>\<open>status_command\<close> (lines 310 and 316), in the order in
  which the source lists the providers.
\<close>

definition available_providers :: "AIChatBot \<Rightarrow> provider list" where
  "available_providers ai_bot =
     (if gemini_model ai_bot \<noteq> None then [Gemini] else [])
     @ (if truthy (grok_api_key ai_bot) then [Grok] else [])"

fun provider_id :: "provider \<Rightarrow> str" where
  "provider_id Gemini = lit ''gemini''"
| "provider_id Grok = lit ''grok''"

section \<open>Handling a message (handle_message, bot.py lines 230-297)\<close>

type_synonym user_data = "str \<rightharpoonup> pyval"

text \<open>\<^verbatim>\<open>context.user_data.get('ai_choice', 'gemini')\<close> (lines 236 and 321).\<close>

definition get_ai_choice :: "user_data \<Rightarrow> pyval" where
  "get_ai_choice ud = dict_get ud (lit ''ai_choice'') (PyStr (lit ''gemini''))"

definition gemini_label :: str where
  "gemini_label = blue_diamond @ lit '' *Gemini Pro:*'' @ nl"

definition grok_label :: str where
  "grok_label = robot_face @ lit '' *Grok AI:*'' @ nl"

text \<open>The list \<^verbatim>\<open>responses\<close> built in the \<^verbatim>\<open>'both_ai'\<close> branch (lines 244-254).\<close>

definition both_ai_responses ::
  "AIChatBot \<Rightarrow> world \<Rightarrow> str \<Rightarrow> event list \<times> (exn + str list)" where
  "both_ai_responses ai_bot w user_message =
     bind_io (emit SendAction) (\<lambda>_.
     bind_io (emit (AdapterCall Gemini user_message)) (\<lambda>_.
     bind_io (gemini_chat ai_bot w user_message) (\<lambda>gemini_response.
     bind_io (emit SendAction) (\<lambda>_.
     bind_io (emit (AdapterCall Grok user_message)) (\<lambda>_.
     bind_io (grok_chat ai_bot w user_message) (\<lambda>grok_response.
     return_io [gemini_label @ gemini_response,
                grok_label @ fstr w grok_response]))))))"

text \<open>
  Line 256: \<^verbatim>\<open>"\n\n" + "=" * 30 + "\n\n".join(responses)\<close> with the box-drawing
  character for \<^verbatim>\<open>=\<close>; \<^verbatim>\<open>*\<close> and the method call bind tighter than \<^verbatim>\<open>+\<close>.
\<close>

definition both_ai_final_response :: "str list \<Rightarrow> str" where
  "both_ai_final_response responses =
     (nl @ nl) @ replicate 30 box_double_horizontal @ str_join (nl @ nl) responses"

text \<open>
  Lines 242-264: the value of \<^verbatim>\<open>final_response\<close> after the \<^verbatim>\<open>if\<close>/\<^verbatim>\<open>elif\<close> chain;
  \<open>None\<close> when no branch assigned it.
\<close>

definition compute_final_response ::
  "AIChatBot \<Rightarrow> world \<Rightarrow> str \<Rightarrow> pyval \<Rightarrow> event list \<times> (exn + str option)" where
  "compute_final_response ai_bot w user_message ai_choice =
     (if ai_choice = PyStr (lit ''both_ai'') then
        bind_io (both_ai_responses ai_bot w user_message) (\<lambda>responses.
        return_io (Some (both_ai_final_response responses)))
      else if ai_choice = PyStr (lit ''gemini'') then
        bind_io (emit (AdapterCall Gemini user_message)) (\<lambda>_.
        bind_io (gemini_chat ai_bot w user_message) (\<lambda>gemini_response.
        return_io (Some (gemini_label @ gemini_response))))
      else if ai_choice = PyStr (lit ''grok'') then
        bind_io (emit (AdapterCall Grok user_message)) (\<lambda>_.
        bind_io (grok_chat ai_bot w user_message) (\<lambda>grok_response.
        return_io (Some (grok_label @ fstr w grok_response))))
      else return_io None)"

text \<open>
  Lines 266-283. Reading \<^verbatim>\<open>final_response\<close> when no branch assigned it raises
  \<^verbatim>\<open>UnboundLocalError\<close>.
\<close>

definition send_response :: "str option \<Rightarrow> event list \<times> (exn + unit)" where
  "send_response final_response =
     (case final_response of
        None \<Rightarrow> ([], Inl UnboundLocalError)
      | Some r \<Rightarrow> (map (\<lambda>(fragment, kb). ReplyText fragment kb) (split_message r), Inr ()))"

definition error_text :: str where
  "error_text =
     nl @ cross_mark @ lit '' *Oops! Something went wrong.*'' @ nl @ nl
     @ lit ''Please try one of these:'' @ nl
     @ lit ''1. '' @ [128260] @ lit '' Use /switch to change AI'' @ nl
     @ lit ''2. '' @ [128221] @ lit '' Rephrase your question'' @ nl
     @ lit ''3. '' @ [9200] @ lit '' Try again in a moment'' @ nl @ nl
     @ lit ''If the problem continues, use /help for assistance.'' @ nl
     @ lit ''        ''"

text \<open>
  The handler returns the session's \<^verbatim>\<open>user_data\<close> as it leaves it, the events, and the
  exception it lets escape, if any. Its last argument is the text of \<^verbatim>\<open>update.message\<close>,
  or \<open>None\<close> when \<^verbatim>\<open>update.message\<close> is \<^verbatim>\<open>None\<close>: then line 232, which is outside the
  \<^verbatim>\<open>try\<close>, raises \<^verbatim>\<open>AttributeError\<close> before anything else happens.
\<close>

definition handle_message ::
  "AIChatBot \<Rightarrow> world \<Rightarrow> user_data \<Rightarrow> str option
     \<Rightarrow> user_data \<times> event list \<times> exn option" where
  "handle_message ai_bot w ud message =
     (case message of
        None \<Rightarrow> (ud, [], Some AttributeError)
      | Some user_message \<Rightarrow>
          (let ai_choice = get_ai_choice ud in
           case bind_io (compute_final_response ai_bot w user_message ai_choice) send_response of
             (evs, Inr _) \<Rightarrow> (ud, SendAction # evs, None)
           | (evs, Inl e) \<Rightarrow>
               (ud,
                SendAction # evs
                  @ [LogError (lit ''Error processing message: '' @ str_exc w e),
                     ReplyText error_text False],
                None)))"

section \<open>The other handlers\<close>

datatype command = Start | Help | Switch | Status

text \<open>
  An update is a command, a new text message that is not a command, the edit of such a
  text message, or a callback query with its data (a string, or \<^verbatim>\<open>None\<close>).
  \<^verbatim>\<open>update.message\<close> is \<^verbatim>\<open>None\<close> for a callback query and for an edited message (the
  library puts the latter in \<^verbatim>\<open>update.edited_message\<close>), and
  \<^verbatim>\<open>update.callback_query\<close> is \<^verbatim>\<open>None\<close> for all but the callback query.
\<close>

datatype update =
    Command command
  | TextMessage str
  | EditedMessage str
  | CallbackQuery "str option"

fun has_message :: "update \<Rightarrow> bool" where
  "has_message (CallbackQuery d) = False"
| "has_message (EditedMessage m) = False"
| "has_message u = True"

definition start :: "update \<Rightarrow> user_data \<Rightarrow> user_data \<times> event list \<times> exn option" where
  "start u ud =
     (if has_message u then (ud, [ReplyWelcome], None) else (ud, [], Some AttributeError))"

definition help_command :: "update \<Rightarrow> user_data \<Rightarrow> user_data \<times> event list \<times> exn option" where
  "help_command u ud =
     (if has_message u then (ud, [ReplyHelp], None) else (ud, [], Some AttributeError))"

definition switch_ai :: "update \<Rightarrow> user_data \<Rightarrow> user_data \<times> event list \<times> exn option" where
  "switch_ai u ud = start u ud"

definition ai_names :: "(pyval \<times> str) list" where
  "ai_names =
     [(PyStr (lit ''gemini''), lit ''Gemini Pro''),
      (PyStr (lit ''grok''), lit ''Grok AI''),
      (PyStr (lit ''both_ai''), lit ''Both AIs'')]"

definition status_command ::
  "AIChatBot \<Rightarrow> update \<Rightarrow> user_data \<Rightarrow> user_data \<times> event list \<times> exn option" where
  "status_command ai_bot u ud =
     (let ai_choice = get_ai_choice ud in
      case map_of ai_names ai_choice of
        None \<Rightarrow> (ud, [], Some (KeyError ai_choice))
      | Some name \<Rightarrow>
          if has_message u
          then (ud, [ReplyStatus (gemini_model ai_bot \<noteq> None) (truthy (grok_api_key ai_bot)) name],
                None)
          else (ud, [], Some AttributeError))"

text \<open>\<^verbatim>\<open>ai_info\<close> (lines 186-202): name and description of each selectable mode.\<close>

definition ai_info :: "(pyval \<times> str \<times> str) list" where
  "ai_info =
     [(PyStr (lit ''gemini''),
         blue_diamond @ lit '' Gemini Pro'',
         lit ''Google'' @ [39] @ lit ''s most advanced AI model''),
      (PyStr (lit ''grok''),
         robot_face @ lit '' Grok AI'',
         lit ''xAI'' @ [39] @ lit ''s powerful conversational AI''),
      (PyStr (lit ''both_ai''),
         [128260] @ lit '' Both AIs'',
         lit ''Get responses from both Gemini and Grok'')]"

text \<open>
  \<^verbatim>\<open>button_handler\<close> (lines 168-228). The data is stored under \<^verbatim>\<open>'ai_choice'\<close> before
  \<^verbatim>\<open>ai_info\<close> is read, and the store is not undone when the lookup raises.
\<close>

fun query_data :: "str option \<Rightarrow> pyval" where
  "query_data None = PyNone"
| "query_data (Some s) = PyStr s"

fun button_handler :: "update \<Rightarrow> user_data \<Rightarrow> user_data \<times> event list \<times> exn option" where
  "button_handler (CallbackQuery d) ud =
     (let choice = query_data d in
      if choice = PyStr (lit ''help'') then
        (case help_command (CallbackQuery d) ud of (ud', evs, r) \<Rightarrow> (ud', AnswerQuery # evs, r))
      else if choice = PyStr (lit ''start_chat'') then
        (case start (CallbackQuery d) ud of (ud', evs, r) \<Rightarrow> (ud', AnswerQuery # evs, r))
      else
        (let ai_choice = choice;
             ud' = ud(lit ''ai_choice'' \<mapsto> ai_choice)
         in case map_of ai_info ai_choice of
              None \<Rightarrow> (ud', [AnswerQuery], Some (KeyError ai_choice))
            | Some (name, description) \<Rightarrow>
                (ud', [AnswerQuery, EditConfirmation name description], None)))"
| "button_handler u ud = (ud, [], Some AttributeError)"

section \<open>Sessions\<close>

text \<open>
  The transport library keeps one \<^verbatim>\<open>user_data\<close> dictionary per user id and hands the
  handler of an update the dictionary of the user who sent it; what the handler stores
  there stays, also when the handler raises. The handlers are registered in \<^verbatim>\<open>main\<close>
  (lines 349-354); the filter of the message handler lets new and edited text messages
  through.
\<close>

type_synonym sessions = "int \<Rightarrow> user_data"

fun dispatch ::
  "AIChatBot \<Rightarrow> world \<Rightarrow> update \<Rightarrow> user_data \<Rightarrow> user_data \<times> event list \<times> exn option" where
  "dispatch ai_bot w (Command Start) ud = start (Command Start) ud"
| "dispatch ai_bot w (Command Help) ud = help_command (Command Help) ud"
| "dispatch ai_bot w (Command Switch) ud = switch_ai (Command Switch) ud"
| "dispatch ai_bot w (Command Status) ud = status_command ai_bot (Command Status) ud"
| "dispatch ai_bot w (CallbackQuery d) ud = button_handler (CallbackQuery d) ud"
| "dispatch ai_bot w (TextMessage m) ud = handle_message ai_bot w ud (Some m)"
| "dispatch ai_bot w (EditedMessage m) ud = handle_message ai_bot w ud None"

definition process_update ::
  "AIChatBot \<Rightarrow> world \<Rightarrow> sessions \<Rightarrow> int \<Rightarrow> update \<Rightarrow> sessions \<times> event list \<times> exn option" where
  "process_update ai_bot w ss user_id u =
     (case dispatch ai_bot w u (ss user_id) of
        (ud', evs, r) \<Rightarrow> (ss(user_id := ud'), evs, r))"

text \<open>The selected mode of a session, as every handler reads it.\<close>

definition mode_of :: "sessions \<Rightarrow> int \<Rightarrow> pyval" where
  "mode_of ss user_id = get_ai_choice (ss user_id)"

text \<open>Text messages of one user, handled one after the other; the events of each.\<close>

fun process_messages ::
  "AIChatBot \<Rightarrow> world \<Rightarrow> sessions \<Rightarrow> int \<Rightarrow> str list \<Rightarrow> sessions \<times> event list list" where
  "process_messages ai_bot w ss user_id [] = (ss, [])"
| "process_messages ai_bot w ss user_id (m # ms) =
     (case process_update ai_bot w ss user_id (TextMessage m) of
        (ss', evs, r) \<Rightarrow>
          (case process_messages ai_bot w ss' user_id ms of
             (ss'', evss) \<Rightarrow> (ss'', evs # evss)))"

section \<open>Observations on an event list\<close>

fun is_adapter_call :: "event \<Rightarrow> bool" where
  "is_adapter_call (AdapterCall p m) = True"
| "is_adapter_call ev = False"

fun is_network_call :: "event \<Rightarrow> bool" where
  "is_network_call (GenerateContent m) = True"
| "is_network_call (HttpPost key m) = True"
| "is_network_call ev = False"

text \<open>
  The handlers await their calls one after the other, so the time a handler spends
  waiting for the providers is the sum of the durations of its network calls.
\<close>

definition network_time :: "world \<Rightarrow> event list \<Rightarrow> nat" where
  "network_time w evs = sum_list (map (duration w) (filter is_network_call evs))"

section \<open>Concrete inputs\<close>

text \<open>
  A completion response of the Grok endpoint whose \<^verbatim>\<open>content\<close> field holds the given
  value, as \<^verbatim>\<open>response.json()\<close> returns it.
\<close>

definition grok_body :: "pyval \<Rightarrow> pyval" where
  "grok_body content =
     PyDict [(lit ''choices'',
              PyList [PyDict [(lit ''message'', PyDict [(lit ''content'', content)])]])]"

text \<open>
  A world in which Gemini answers \<^verbatim>\<open>hello\<close>, the Grok endpoint answers with status 200
  and the given content, and every network call takes 1000 ms. \<open>str_value\<close> is
  \<^verbatim>\<open>str(v)\<close> on the two values that the examples render, \<^verbatim>\<open>42\<close> and \<^verbatim>\<open>None\<close>.
\<close>

definition example_world :: "pyval \<Rightarrow> world" where
  "example_world content =
     \<lparr> generate_content = (\<lambda>m. Inr (GenerateContentResponse (Inr (lit ''hello'')))),
       post = (\<lambda>key m. Inr \<lparr> status_code = 200, body = [], json = Inr (grok_body content) \<rparr>),
       str_exc = (\<lambda>e. lit ''error''),
       str_value = (\<lambda>v. if v = PyInt 42 then lit ''42'' else lit ''None''),
       duration = (\<lambda>ev. if is_network_call ev then 1000 else 0) \<rparr>"

definition example_bot :: AIChatBot where
  "example_bot =
     \<lparr> telegram_token = Some (lit ''t''),
       gemini_model = Some (GenerativeModel (lit ''gemini-pro'')),
       grok_api_key = Some (lit ''k'') \<rparr>"

definition example_bot_no_gemini :: AIChatBot where
  "example_bot_no_gemini =
     \<lparr> telegram_token = Some (lit ''t''),
       gemini_model = None,
       grok_api_key = Some (lit ''k'') \<rparr>"

definition no_env :: "string \<Rightarrow> str option" where
  "no_env name = None"

definition placeholder_env :: "string \<Rightarrow> str option" where
  "placeholder_env name =
     (if name = ''GEMINI_API_KEY'' then Some (lit ''your_gemini_api_key_here'')
      else if name = ''GROK_API_KEY'' then Some (lit ''your_grok_api_key_here'')
      else None)"

definition grok_only_env :: "string \<Rightarrow> str option" where
  "grok_only_env name = (if name = ''GROK_API_KEY'' then Some (lit ''k'') else None)"

definition no_selection :: sessions where
  "no_selection = (\<lambda>user_id. Map.empty)"

text \<open>The sessions after user 7 has pressed the button \<^verbatim>\<open>Grok AI\<close>.\<close>

definition grok_selected :: sessions where
  "grok_selected =
     fst (process_update example_bot (example_world PyNone) no_selection 7
            (CallbackQuery (Some (lit ''grok''))))"

section \<open>Properties of the split\<close>

lemma concat_split_loop: "concat (split_loop i xs) = drop i xs"
proof (induction i xs rule: split_loop.induct)
  case (1 i xs)
  show ?case
  proof (cases "i < length xs")
    case True
    have "concat (split_loop i xs) = take 4000 (drop i xs) @ drop (i + 4000) xs"
      using True "1" by (subst split_loop.simps) (simp add: slice_def)
    also have "\<dots> = take 4000 (drop i xs) @ drop 4000 (drop i xs)"
      by (simp add: add.commute)
    finally show ?thesis by (simp only: append_take_drop_id)
  next
    case False
    then show ?thesis by (subst split_loop.simps) simp
  qed
qed

lemma length_split_loop_elem: "f \<in> set (split_loop i xs) \<Longrightarrow> length f \<le> 4000"
proof (induction i xs rule: split_loop.induct)
  case (1 i xs)
  show ?case
  proof (cases "i < length xs")
    case True
    from "1.prems" have "f \<in> set (slice xs i (i + 4000) # split_loop (i + 4000) xs)"
      using True by (subst (asm) split_loop.simps) simp
    then show ?thesis
      using "1.IH" True by (auto simp: slice_def)
  next
    case False
    with "1.prems" show ?thesis by (subst (asm) split_loop.simps) simp
  qed
qed

lemma split_loop_nonempty_elem: "f \<in> set (split_loop i xs) \<Longrightarrow> f \<noteq> []"
proof (induction i xs rule: split_loop.induct)
  case (1 i xs)
  show ?case
  proof (cases "i < length xs")
    case True
    from "1.prems" have "f \<in> set (slice xs i (i + 4000) # split_loop (i + 4000) xs)"
      using True by (subst (asm) split_loop.simps) simp
    then show ?thesis
      using "1.IH" True by (auto simp: slice_def)
  next
    case False
    with "1.prems" show ?thesis by (subst (asm) split_loop.simps) simp
  qed
qed

lemma length_split_loop: "length (split_loop i xs) = (length xs - i + 3999) div 4000"
proof (induction i xs rule: split_loop.induct)
  case (1 i xs)
  show ?case
  proof (cases "i < length xs")
    case True
    have "length (split_loop i xs) = Suc ((length xs - (i + 4000) + 3999) div 4000)"
      using True "1" by (subst split_loop.simps) simp
    also have "\<dots> = (length xs - i + 3999) div 4000"
      using True by (cases "length xs - i \<ge> 4000") (simp_all add: div_eq_dividend_iff)
    finally show ?thesis .
  next
    case False
    then show ?thesis by (subst split_loop.simps) simp
  qed
qed

lemma concat_fragments: "concat (fragments T) = T"
  by (simp add: fragments_def split_message_def comp_def concat_split_loop)

lemma length_fragment: "f \<in> set (fragments T) \<Longrightarrow> length f \<le> 4000"
  by (auto simp: fragments_def split_message_def comp_def dest: length_split_loop_elem
      split: if_splits)

lemma length_fragments:
  "length (fragments T) = (if length T > 4000 then (length T + 3999) div 4000 else 1)"
  by (simp add: fragments_def split_message_def length_split_loop)

lemma concat_map_concat_map:
  "concat (map (\<lambda>f. concat (map enc f)) fs) = concat (map enc (concat fs))"
  by (induction fs) simp_all

lemma encode_fragments:
  "concat (map (\<lambda>f. concat (map enc f)) (fragments T)) = concat (map enc T)"
  by (simp only: concat_map_concat_map concat_fragments)

text \<open>
  Claim C1. For every rendered response text \<open>T\<close> (maximum fragment size 4000): the
  fragments handed to the transport, concatenated in order, are \<open>T\<close> exactly; every
  fragment has at most 4000 characters; a text of 9000 characters gives exactly 3
  fragments; and no fragment boundary falls inside a multi-byte character: under any
  character-wise byte encoding \<open>enc\<close> (UTF-8 is one), the encoded text is the
  concatenation of the encoded fragments.
\<close>

theorem chunker_round_trip:
  "concat (fragments T) = T
   \<and> (\<forall>f \<in> set (fragments T). length f \<le> 4000)
   \<and> (length T = 9000 \<longrightarrow> length (fragments T) = 3)
   \<and> (\<forall>enc :: 'a \<Rightarrow> nat list.
        concat (map (\<lambda>f. concat (map enc f)) (fragments T)) = concat (map enc T))"
  by (simp add: concat_fragments length_fragment length_fragments encode_fragments)

theorem chunker_round_trip_witness:
  "concat (fragments (replicate 9000 (65::nat))) = replicate 9000 65
   \<and> length (replicate 9000 (65::nat)) = 9000
   \<and> length (fragments (replicate 9000 (65::nat))) = 3
   \<and> length (hd (fragments (replicate 9000 (65::nat)))) \<le> 4000"
proof -
  let ?T = "replicate 9000 (65::nat)"
  note c1 = chunker_round_trip [of ?T]
  have n: "length (fragments ?T) = 3"
    using c1 by simp
  then have "fragments ?T \<noteq> []"
    by auto
  then have "hd (fragments ?T) \<in> set (fragments ?T)"
    by (rule hd_in_set)
  then have "length (hd (fragments ?T)) \<le> 4000"
    using c1 by blast
  then show ?thesis
    using c1 n by simp
qed

section \<open>Properties of the adapters\<close>

lemma gemini_chat_cases:
  "gemini_chat self w m =
     (case gemini_model self of
        None \<Rightarrow> ([], Inr gemini_not_configured)
      | Some model \<Rightarrow>
          (case bind_exn (generate_content w m) text_of of
             Inr t \<Rightarrow> ([GenerateContent m], Inr t)
           | Inl e \<Rightarrow>
               ([GenerateContent m, LogError (lit ''Gemini Error: '' @ str_exc w e)],
                Inr (cross_mark @ lit '' Gemini Error: '' @ str_exc w e))))"
  by (simp add: gemini_chat_def gemini_try_def split: option.split sum.split)

lemma gemini_chat_never_raises: "\<exists>evs t. gemini_chat self w m = (evs, Inr t)"
  by (simp add: gemini_chat_cases split: option.split sum.split)

lemma grok_try_events: "fst (grok_try w key m) = [HttpPost key m]"
  by (simp add: grok_try_def)

lemma grok_chat_cases:
  "grok_chat self w m =
     (if \<not> truthy (grok_api_key self) then ([], Inr (PyStr grok_not_configured))
      else
        (case snd (grok_try w (the (grok_api_key self)) m) of
           Inr v \<Rightarrow> ([HttpPost (the (grok_api_key self)) m], Inr v)
         | Inl e \<Rightarrow>
             ([HttpPost (the (grok_api_key self)) m,
               LogError (lit ''Grok Error: '' @ str_exc w e)],
              Inr (PyStr (cross_mark @ lit '' Grok Error: '' @ str_exc w e)))))"
  by (cases "grok_try w (the (grok_api_key self)) m")
     (use grok_try_events [of w "the (grok_api_key self)" m] in
      \<open>auto simp: grok_chat_def split: option.split sum.split\<close>)

lemma grok_chat_never_raises: "\<exists>evs v. grok_chat self w m = (evs, Inr v)"
  by (simp add: grok_chat_cases split: sum.split)

text \<open>
  Every exception of the Gemini request, and of reading \<^verbatim>\<open>response.text\<close>, becomes a
  failure message that names the provider and carries \<^verbatim>\<open>str(e)\<close>.
\<close>

lemma gemini_chat_exception:
  assumes "gemini_model self = Some model"
    and "bind_exn (generate_content w m) text_of = Inl e"
  shows "snd (gemini_chat self w m) = Inr (cross_mark @ lit '' Gemini Error: '' @ str_exc w e)"
  using assms by (simp add: gemini_chat_cases)

text \<open>
  The same for the Grok request: an exception of the POST, of the JSON decoding or of the
  lookup of the content becomes a failure message, and so does every status other than 200.
\<close>

lemma grok_chat_post_raises:
  assumes "truthy (grok_api_key self)" and "post w (the (grok_api_key self)) m = Inl e"
  shows "snd (grok_chat self w m) = Inr (PyStr (cross_mark @ lit '' Grok Error: '' @ str_exc w e))"
  using assms by (simp add: grok_chat_cases grok_try_def bind_exn_def)

lemma grok_chat_status_not_200:
  assumes "truthy (grok_api_key self)" and "post w (the (grok_api_key self)) m = Inr response"
    and "status_code response \<noteq> 200"
  shows "snd (grok_chat self w m)
           = Inr (PyStr (cross_mark @ lit '' Grok API Error: ''
                         @ fstr w (PyInt (status_code response)) @ lit '' - '' @ body response))"
  using assms by (simp add: grok_chat_cases grok_try_def bind_exn_def)

lemma grok_chat_body_raises:
  assumes "truthy (grok_api_key self)" and "post w (the (grok_api_key self)) m = Inr response"
    and "status_code response = 200" and "bind_exn (json response) content_of = Inl e"
  shows "snd (grok_chat self w m) = Inr (PyStr (cross_mark @ lit '' Grok Error: '' @ str_exc w e))"
  using assms by (simp add: grok_chat_cases grok_try_def bind_exn_def)

lemma grok_chat_content:
  assumes "truthy (grok_api_key self)" and "post w (the (grok_api_key self)) m = Inr response"
    and "status_code response = 200" and "bind_exn (json response) content_of = Inr v"
  shows "snd (grok_chat self w m) = Inr v"
  using assms by (simp add: grok_chat_cases grok_try_def bind_exn_def)

lemma content_of_grok_body: "content_of (grok_body c) = Inr c"
  by (simp add: content_of_def grok_body_def bind_exn_def lit_def)

lemma gemini_chat_cong:
  assumes "gemini_model b' = gemini_model b" "generate_content w' = generate_content w"
    "str_exc w' = str_exc w"
  shows "gemini_chat b' w' m = gemini_chat b w m"
  unfolding gemini_chat_def gemini_try_def assms by (rule refl)

lemma fstr_cong: "str_value w' = str_value w \<Longrightarrow> fstr w' v = fstr w v"
  by (cases v) (simp_all add: fstr_def)

lemma grok_try_cong:
  assumes "post w' = post w" "str_value w' = str_value w"
  shows "grok_try w' key m = grok_try w key m"
proof -
  have f: "fstr w' = fstr w"
    using fstr_cong [OF assms(2)] by (intro ext)
  show ?thesis
    unfolding grok_try_def assms(1) f by (rule refl)
qed

lemma grok_chat_cong:
  assumes "grok_api_key b' = grok_api_key b" "post w' = post w" "str_exc w' = str_exc w"
    "str_value w' = str_value w"
  shows "grok_chat b' w' m = grok_chat b w m"
  unfolding grok_chat_def grok_try_cong [OF assms(2) assms(4)] assms(1) assms(3) by (rule refl)

lemma gemini_chat_events:
  assumes "gemini_chat ai_bot w m = (evs, r)"
  shows "filter is_adapter_call evs = []" and "HttpPost key m' \<notin> set evs"
  using assms by (auto simp: gemini_chat_cases split: option.splits sum.splits)

lemma gemini_chat_configured_events:
  assumes "gemini_model ai_bot = Some model"
  shows "filter (\<lambda>ev. is_adapter_call ev \<or> is_network_call ev) (fst (gemini_chat ai_bot w m))
           = [GenerateContent m]"
    and "filter is_network_call (fst (gemini_chat ai_bot w m)) = [GenerateContent m]"
  using assms by (simp_all add: gemini_chat_cases split: sum.split)

lemma grok_chat_configured_events:
  assumes "grok_api_key ai_bot = Some key" and "key \<noteq> []"
  shows "filter (\<lambda>ev. is_adapter_call ev \<or> is_network_call ev) (fst (grok_chat ai_bot w m))
           = [HttpPost key m]"
    and "filter is_network_call (fst (grok_chat ai_bot w m)) = [HttpPost key m]"
  using assms by (simp_all add: grok_chat_cases split: sum.split)

lemma gemini_chat_example:
  "gemini_chat example_bot (example_world c) m = ([GenerateContent m], Inr (lit ''hello''))"
  by (simp add: gemini_chat_cases example_bot_def example_world_def bind_exn_def)

lemma grok_chat_example:
  "grok_chat example_bot (example_world c) m = ([HttpPost (lit ''k'') m], Inr c)"
  by (simp add: grok_chat_cases grok_try_def example_bot_def example_world_def bind_exn_def
      content_of_grok_body lit_def)

lemma example_bot_configured:
  "gemini_model example_bot = Some (GenerativeModel (lit ''gemini-pro''))"
  "grok_api_key example_bot = Some (lit ''k'')" "lit ''k'' \<noteq> []"
  by (simp_all add: example_bot_def lit_def)

lemma example_world_duration:
  "duration (example_world c) (GenerateContent m) = 1000"
  "duration (example_world c) (HttpPost key m) = 1000"
  by (simp_all add: example_world_def)

text \<open>
  Claim C5. For every prompt, an adapter whose provider has no configured credential (the
  key is missing, empty or the placeholder) returns the failure message saying that the
  provider's key is not configured, and makes no network call: its event list is empty.
\<close>

theorem unconfigured_adapter_short_circuits:
  "(getenv ''GEMINI_API_KEY'' = None \<or> getenv ''GEMINI_API_KEY'' = Some []
      \<or> getenv ''GEMINI_API_KEY'' = Some (lit ''your_gemini_api_key_here'')
     \<longrightarrow> gemini_chat (AIChatBot_init getenv) w message = ([], Inr gemini_not_configured))
   \<and> (getenv ''GROK_API_KEY'' = None \<or> getenv ''GROK_API_KEY'' = Some []
      \<or> getenv ''GROK_API_KEY'' = Some (lit ''your_grok_api_key_here'')
     \<longrightarrow> grok_chat (AIChatBot_init getenv) w message = ([], Inr (PyStr grok_not_configured)))
   \<and> (gemini_model self = None \<longrightarrow> gemini_chat self w message = ([], Inr gemini_not_configured))
   \<and> (\<not> truthy (grok_api_key self)
     \<longrightarrow> grok_chat self w message = ([], Inr (PyStr grok_not_configured)))"
  by (auto simp: gemini_chat_cases grok_chat_cases AIChatBot_init_def)

theorem unconfigured_adapter_short_circuits_witness:
  "no_env ''GEMINI_API_KEY'' = None \<and> no_env ''GROK_API_KEY'' = None
   \<and> gemini_chat (AIChatBot_init no_env) (example_world PyNone) (lit ''q'')
       = ([], Inr gemini_not_configured)
   \<and> grok_chat (AIChatBot_init no_env) (example_world PyNone) (lit ''q'')
       = ([], Inr (PyStr grok_not_configured))
   \<and> placeholder_env ''GEMINI_API_KEY'' = Some (lit ''your_gemini_api_key_here'')
   \<and> placeholder_env ''GROK_API_KEY'' = Some (lit ''your_grok_api_key_here'')
   \<and> gemini_chat (AIChatBot_init placeholder_env) (example_world PyNone) (lit ''q'')
       = ([], Inr gemini_not_configured)
   \<and> grok_chat (AIChatBot_init placeholder_env) (example_world PyNone) (lit ''q'')
       = ([], Inr (PyStr grok_not_configured))
   \<and> gemini_model example_bot_no_gemini = None
   \<and> gemini_chat example_bot_no_gemini (example_world PyNone) (lit ''q'')
       = ([], Inr gemini_not_configured)"
proof -
  have e1: "no_env ''GEMINI_API_KEY'' = None" "no_env ''GROK_API_KEY'' = None"
    by (simp_all add: no_env_def)
  have e2: "placeholder_env ''GEMINI_API_KEY'' = Some (lit ''your_gemini_api_key_here'')"
    "placeholder_env ''GROK_API_KEY'' = Some (lit ''your_grok_api_key_here'')"
    by (simp_all add: placeholder_env_def)
  have e3: "gemini_model example_bot_no_gemini = None"
    by (simp add: example_bot_no_gemini_def)
  show ?thesis
    using unconfigured_adapter_short_circuits
            [of no_env "example_world PyNone" "lit ''q''" example_bot_no_gemini]
          unconfigured_adapter_short_circuits
            [of placeholder_env "example_world PyNone" "lit ''q''" example_bot_no_gemini]
          e1 e2 e3
    by simp
qed

section \<open>Properties of the routing\<close>

lemma mode_literals_distinct:
  "lit ''both_ai'' \<noteq> lit ''gemini''" "lit ''both_ai'' \<noteq> lit ''grok''"
  "lit ''gemini'' \<noteq> lit ''grok''" "lit ''gemini'' \<noteq> lit ''both_ai''"
  "lit ''grok'' \<noteq> lit ''both_ai''" "lit ''grok'' \<noteq> lit ''gemini''"
  by (simp_all add: lit_def)

lemma both_ai_responses_eq:
  assumes "gemini_chat ai_bot w m = (evs1, Inr g)" and "grok_chat ai_bot w m = (evs2, Inr k)"
  shows "both_ai_responses ai_bot w m =
           ([SendAction, AdapterCall Gemini m] @ evs1 @ [SendAction, AdapterCall Grok m] @ evs2,
            Inr [gemini_label @ g, grok_label @ fstr w k])"
  using assms by (simp add: both_ai_responses_def bind_io_def emit_def return_io_def)

lemma both_ai_responses_events:
  "fst (both_ai_responses ai_bot w m) =
     [SendAction, AdapterCall Gemini m] @ fst (gemini_chat ai_bot w m)
     @ [SendAction, AdapterCall Grok m] @ fst (grok_chat ai_bot w m)"
proof -
  obtain evs1 g where g: "gemini_chat ai_bot w m = (evs1, Inr g)"
    using gemini_chat_never_raises by blast
  obtain evs2 k where k: "grok_chat ai_bot w m = (evs2, Inr k)"
    using grok_chat_never_raises by blast
  show ?thesis
    by (simp add: both_ai_responses_eq [OF g k] g k)
qed

lemma final_response_both:
  assumes "gemini_chat ai_bot w m = (evs1, Inr g)" and "grok_chat ai_bot w m = (evs2, Inr k)"
  shows "compute_final_response ai_bot w m (PyStr (lit ''both_ai'')) =
           ([SendAction, AdapterCall Gemini m] @ evs1 @ [SendAction, AdapterCall Grok m] @ evs2,
            Inr (Some (both_ai_final_response [gemini_label @ g, grok_label @ fstr w k])))"
  by (simp add: compute_final_response_def both_ai_responses_eq [OF assms] bind_io_def
      return_io_def)

lemma final_response_gemini:
  assumes "gemini_chat ai_bot w m = (evs1, Inr g)"
  shows "compute_final_response ai_bot w m (PyStr (lit ''gemini'')) =
           (AdapterCall Gemini m # evs1, Inr (Some (gemini_label @ g)))"
  using assms
  by (simp add: compute_final_response_def mode_literals_distinct bind_io_def return_io_def
      emit_def)

lemma final_response_grok:
  assumes "grok_chat ai_bot w m = (evs2, Inr k)"
  shows "compute_final_response ai_bot w m (PyStr (lit ''grok'')) =
           (AdapterCall Grok m # evs2, Inr (Some (grok_label @ fstr w k)))"
  using assms
  by (simp add: compute_final_response_def mode_literals_distinct bind_io_def return_io_def
      emit_def)

lemma final_response_unrecognised:
  assumes "c \<noteq> PyStr (lit ''both_ai'')" "c \<noteq> PyStr (lit ''gemini'')" "c \<noteq> PyStr (lit ''grok'')"
  shows "compute_final_response ai_bot w m c = ([], Inr None)"
  using assms by (simp add: compute_final_response_def return_io_def)

lemma reply_events_not_adapter:
  "filter is_adapter_call (map (\<lambda>(fragment, kb). ReplyText fragment kb) xs) = []"
  by (induction xs) auto

lemma handle_message_bound:
  assumes "compute_final_response ai_bot w m (get_ai_choice ud) = (evs, Inr (Some r))"
  shows "handle_message ai_bot w ud (Some m) =
           (ud, SendAction # evs @ map (\<lambda>(fragment, kb). ReplyText fragment kb) (split_message r),
            None)"
  using assms by (simp add: handle_message_def bind_io_def send_response_def)

lemma handle_message_unbound:
  assumes "compute_final_response ai_bot w m (get_ai_choice ud) = (evs, Inr None)"
  shows "handle_message ai_bot w ud (Some m) =
           (ud,
            SendAction # evs
              @ [LogError (lit ''Error processing message: '' @ str_exc w UnboundLocalError),
                 ReplyText error_text False],
            None)"
  using assms by (simp add: handle_message_def bind_io_def send_response_def)

lemma handle_message_user_data: "fst (handle_message ai_bot w ud message) = ud"
  by (simp add: handle_message_def Let_def split: option.split prod.split sum.split)

lemma handle_message_no_message:
  "handle_message ai_bot w ud None = (ud, [], Some AttributeError)"
  by (simp add: handle_message_def)


lemma both_ai_calls_in_sequence:
  assumes "gemini_model ai_bot = Some model" and "grok_api_key ai_bot = Some key" and "key \<noteq> []"
  shows "filter (\<lambda>ev. is_adapter_call ev \<or> is_network_call ev) (fst (both_ai_responses ai_bot w m))
           = [AdapterCall Gemini m, GenerateContent m, AdapterCall Grok m, HttpPost key m]"
  by (simp add: both_ai_responses_events gemini_chat_configured_events(1) [OF assms(1)]
      grok_chat_configured_events(1) [OF assms(2,3)])

lemma both_ai_network_time:
  assumes "gemini_model ai_bot = Some model" and "grok_api_key ai_bot = Some key" and "key \<noteq> []"
  shows "network_time w (fst (both_ai_responses ai_bot w m))
           = duration w (GenerateContent m) + duration w (HttpPost key m)"
  by (simp add: network_time_def both_ai_responses_events
      gemini_chat_configured_events(2) [OF assms(1)]
      grok_chat_configured_events(2) [OF assms(2,3)])

section \<open>Properties of the sessions\<close>

lemma start_user_data: "fst (start u ud) = ud"
  by (simp add: start_def)

lemma help_command_user_data: "fst (help_command u ud) = ud"
  by (simp add: help_command_def)

lemma status_command_user_data: "fst (status_command ai_bot u ud) = ud"
  by (simp add: status_command_def Let_def split: option.split)

lemma dispatch_non_callback:
  assumes "\<forall>d. u \<noteq> CallbackQuery d"
  shows "fst (dispatch ai_bot w u ud) = ud"
proof (cases u)
  case (Command c)
  then show ?thesis
    by (cases c)
       (simp_all add: start_user_data help_command_user_data status_command_user_data
          switch_ai_def)
next
  case (TextMessage m)
  then show ?thesis by (simp add: handle_message_user_data)
next
  case (EditedMessage m)
  then show ?thesis by (simp add: handle_message_user_data)
next
  case (CallbackQuery d)
  with assms show ?thesis by simp
qed

lemma fst_process_update:
  "fst (process_update ai_bot w ss user_id u)
     = ss(user_id := fst (dispatch ai_bot w u (ss user_id)))"
  by (simp add: process_update_def split: prod.split)

lemma process_update_non_callback:
  assumes "\<forall>d. u \<noteq> CallbackQuery d"
  shows "fst (process_update ai_bot w ss user_id u) = ss"
  by (simp add: fst_process_update dispatch_non_callback [OF assms])

lemma process_update_other_session:
  "s2 \<noteq> s1 \<Longrightarrow> fst (process_update ai_bot w ss s1 u) s2 = ss s2"
  by (simp add: fst_process_update)

lemma button_handler_no_selection:
  assumes "d = Some (lit ''help'') \<or> d = Some (lit ''start_chat'')"
  shows "fst (button_handler (CallbackQuery d) ud) = ud"
  using assms by (auto simp: Let_def start_def help_command_def)

lemma query_data_eq_PyStr: "query_data d = PyStr s \<longleftrightarrow> d = Some s"
  by (cases d) auto

lemma button_handler_stores:
  assumes "d \<noteq> Some (lit ''help'')" and "d \<noteq> Some (lit ''start_chat'')"
  shows "fst (button_handler (CallbackQuery d) ud) = ud(lit ''ai_choice'' \<mapsto> query_data d)"
  using assms by (simp add: Let_def query_data_eq_PyStr split: option.split prod.split)

lemma ai_info_unrecognised:
  assumes "d \<noteq> Some (lit ''gemini'')" and "d \<noteq> Some (lit ''grok'')"
    and "d \<noteq> Some (lit ''both_ai'')"
  shows "map_of ai_info (query_data d) = None"
  using assms by (cases d) (auto simp: ai_info_def)

lemma button_handler_unrecognised:
  assumes "d \<notin> {Some (lit ''help''), Some (lit ''start_chat''), Some (lit ''gemini''),
                 Some (lit ''grok''), Some (lit ''both_ai'')}"
  shows "button_handler (CallbackQuery d) ud =
           (ud(lit ''ai_choice'' \<mapsto> query_data d), [AnswerQuery], Some (KeyError (query_data d)))"
proof -
  have "map_of ai_info (query_data d) = None"
    using assms by (intro ai_info_unrecognised) auto
  then show ?thesis
    using assms by (simp add: Let_def query_data_eq_PyStr)
qed

lemma mode_of_default:
  "ss user_id (lit ''ai_choice'') = None \<Longrightarrow> mode_of ss user_id = PyStr (lit ''gemini'')"
  by (simp add: mode_of_def get_ai_choice_def dict_get_def)

lemma mode_of_selected:
  assumes "d \<noteq> Some (lit ''help'')" and "d \<noteq> Some (lit ''start_chat'')"
  shows "mode_of (fst (process_update ai_bot w ss user_id (CallbackQuery d))) user_id
           = query_data d"
  by (simp add: fst_process_update button_handler_stores [OF assms] mode_of_def
      get_ai_choice_def dict_get_def del: button_handler.simps)

lemma unrecognised_mode_error_reply:
  assumes "mode_of ss user_id \<noteq> PyStr (lit ''both_ai'')"
    and "mode_of ss user_id \<noteq> PyStr (lit ''gemini'')"
    and "mode_of ss user_id \<noteq> PyStr (lit ''grok'')"
  shows "process_update ai_bot w ss user_id (TextMessage m) =
           (ss,
            [SendAction,
             LogError (lit ''Error processing message: '' @ str_exc w UnboundLocalError),
             ReplyText error_text False],
            None)"
proof -
  have "compute_final_response ai_bot w m (get_ai_choice (ss user_id)) = ([], Inr None)"
    using assms by (intro final_response_unrecognised) (simp_all add: mode_of_def)
  from handle_message_unbound [OF this] show ?thesis
    by (simp add: process_update_def)
qed

lemma unrecognised_mode_all_messages:
  assumes "mode_of ss user_id \<noteq> PyStr (lit ''both_ai'')"
    and "mode_of ss user_id \<noteq> PyStr (lit ''gemini'')"
    and "mode_of ss user_id \<noteq> PyStr (lit ''grok'')"
  shows "process_messages ai_bot w ss user_id ms =
           (ss,
            map (\<lambda>m. [SendAction,
                      LogError (lit ''Error processing message: '' @ str_exc w UnboundLocalError),
                      ReplyText error_text False]) ms)"
  by (induction ms) (simp_all add: unrecognised_mode_error_reply [OF assms])

section \<open>The claims about routing, rendering and sessions\<close>

text \<open>
  Claim C2. In the mode \<^verbatim>\<open>'both_ai'\<close> the list of responses holds exactly one entry per
  provider, Gemini's first and Grok's second: the handler awaits the two adapters in this
  order, so no other completion order exists. Neither adapter raises, so neither entry is
  ever missing. Grok's entry depends only on the Grok key and the Grok endpoint: it is the
  same whatever the Gemini configuration and the Gemini answer are (unconfigured, an
  exception, a text), and the same holds for Gemini's entry with the roles exchanged.
\<close>

theorem both_ai_aggregates_in_dispatch_order:
  "\<exists>evs1 evs2 g k.
      gemini_chat ai_bot w m = (evs1, Inr g) \<and> grok_chat ai_bot w m = (evs2, Inr k)
    \<and> both_ai_responses ai_bot w m =
        ([SendAction, AdapterCall Gemini m] @ evs1 @ [SendAction, AdapterCall Grok m] @ evs2,
         Inr [gemini_label @ g, grok_label @ fstr w k])
    \<and> compute_final_response ai_bot w m (PyStr (lit ''both_ai'')) =
        ([SendAction, AdapterCall Gemini m] @ evs1 @ [SendAction, AdapterCall Grok m] @ evs2,
         Inr (Some (both_ai_final_response [gemini_label @ g, grok_label @ fstr w k])))
    \<and> (\<forall>ai_bot' w'.
          grok_api_key ai_bot' = grok_api_key ai_bot \<and> post w' = post w
          \<and> str_exc w' = str_exc w \<and> str_value w' = str_value w
          \<longrightarrow> (\<exists>evs' g'. both_ai_responses ai_bot' w' m =
                            (evs', Inr [gemini_label @ g', grok_label @ fstr w k])))
    \<and> (\<forall>ai_bot' w'.
          gemini_model ai_bot' = gemini_model ai_bot \<and> generate_content w' = generate_content w
          \<and> str_exc w' = str_exc w
          \<longrightarrow> (\<exists>evs' k'. both_ai_responses ai_bot' w' m =
                            (evs', Inr [gemini_label @ g, grok_label @ k'])))"
proof -
  obtain evs1 g where g: "gemini_chat ai_bot w m = (evs1, Inr g)"
    using gemini_chat_never_raises by blast
  obtain evs2 k where k: "grok_chat ai_bot w m = (evs2, Inr k)"
    using grok_chat_never_raises by blast
  have grok_kept: "\<exists>evs' g'. both_ai_responses ai_bot' w' m =
                            (evs', Inr [gemini_label @ g', grok_label @ fstr w k])"
    if "grok_api_key ai_bot' = grok_api_key ai_bot" "post w' = post w"
       "str_exc w' = str_exc w" "str_value w' = str_value w" for ai_bot' w'
  proof -
    obtain evs1' g' where g': "gemini_chat ai_bot' w' m = (evs1', Inr g')"
      using gemini_chat_never_raises by blast
    have k': "grok_chat ai_bot' w' m = (evs2, Inr k)"
      using grok_chat_cong [OF that] k by simp
    show ?thesis
      using both_ai_responses_eq [OF g' k'] fstr_cong [OF that(4)] by simp
  qed
  have gemini_kept: "\<exists>evs' k'. both_ai_responses ai_bot' w' m =
                            (evs', Inr [gemini_label @ g, grok_label @ k'])"
    if "gemini_model ai_bot' = gemini_model ai_bot" "generate_content w' = generate_content w"
       "str_exc w' = str_exc w" for ai_bot' w'
  proof -
    obtain evs2' k' where k': "grok_chat ai_bot' w' m = (evs2', Inr k')"
      using grok_chat_never_raises by blast
    have g': "gemini_chat ai_bot' w' m = (evs1, Inr g)"
      using gemini_chat_cong [OF that] g by simp
    show ?thesis
      using both_ai_responses_eq [OF g' k'] by simp
  qed
  show ?thesis
    using g k both_ai_responses_eq [OF g k] final_response_both [OF g k] grok_kept gemini_kept
    by blast
qed

text \<open>
  At a concrete input: Gemini is configured in one bot and not in the other; the Grok
  entry of the second bot is the Grok entry of the first.
\<close>

theorem both_ai_aggregates_in_dispatch_order_witness:
  "grok_api_key example_bot_no_gemini = grok_api_key example_bot
   \<and> (\<exists>evs' g'. both_ai_responses example_bot_no_gemini (example_world (PyStr (lit ''hi'')))
                    (lit ''q'')
                  = (evs', Inr [gemini_label @ g', grok_label @ lit ''hi'']))"
proof -
  let ?w = "example_world (PyStr (lit ''hi''))"
  have same: "grok_api_key example_bot_no_gemini = grok_api_key example_bot"
    by (simp add: example_bot_no_gemini_def example_bot_def)
  from both_ai_aggregates_in_dispatch_order [of example_bot ?w "lit ''q''"]
  obtain evs2 k where k: "grok_chat example_bot ?w (lit ''q'') = (evs2, Inr k)"
    and kept: "\<forall>ai_bot' w'.
          grok_api_key ai_bot' = grok_api_key example_bot \<and> post w' = post ?w
          \<and> str_exc w' = str_exc ?w \<and> str_value w' = str_value ?w
          \<longrightarrow> (\<exists>evs' g'. both_ai_responses ai_bot' w' (lit ''q'') =
                            (evs', Inr [gemini_label @ g', grok_label @ fstr ?w k]))"
    by blast
  have "k = PyStr (lit ''hi'')"
    using k by (simp add: grok_chat_example)
  then have "fstr ?w k = lit ''hi''"
    by (simp add: fstr_def)
  with kept same show ?thesis
    by metis
qed

text \<open>
  Claim C3, as the code has it. A single-backend response is not rendered bare: it is the
  provider's label followed by the adapter's text. A multi-backend response carries the
  label of each provider before its result, Gemini's first, and the separator
  \<^verbatim>\<open>"\n\n"\<close> between the two results.
\<close>

theorem rendering_policy:
  "\<exists>evs1 evs2 g k.
      gemini_chat ai_bot w m = (evs1, Inr g) \<and> grok_chat ai_bot w m = (evs2, Inr k)
    \<and> snd (compute_final_response ai_bot w m (PyStr (lit ''gemini'')))
        = Inr (Some (gemini_label @ g))
    \<and> snd (compute_final_response ai_bot w m (PyStr (lit ''grok'')))
        = Inr (Some (grok_label @ fstr w k))
    \<and> snd (compute_final_response ai_bot w m (PyStr (lit ''both_ai'')))
        = Inr (Some (nl @ nl @ replicate 30 box_double_horizontal
                     @ gemini_label @ g @ nl @ nl @ grok_label @ fstr w k))"
proof -
  obtain evs1 g where g: "gemini_chat ai_bot w m = (evs1, Inr g)"
    using gemini_chat_never_raises by blast
  obtain evs2 k where k: "grok_chat ai_bot w m = (evs2, Inr k)"
    using grok_chat_never_raises by blast
  show ?thesis
    using g k
    by (simp add: final_response_gemini [OF g] final_response_grok [OF k]
        final_response_both [OF g k] both_ai_final_response_def)
qed

theorem rendering_policy_witness:
  "snd (compute_final_response example_bot (example_world (PyStr (lit ''hi''))) (lit ''q'')
          (PyStr (lit ''both_ai'')))
     = Inr (Some (nl @ nl @ replicate 30 box_double_horizontal
                  @ gemini_label @ lit ''hello'' @ nl @ nl @ grok_label @ lit ''hi''))"
proof -
  let ?w = "example_world (PyStr (lit ''hi''))"
  from rendering_policy [of example_bot ?w "lit ''q''"]
  obtain evs1 evs2 g k where g: "gemini_chat example_bot ?w (lit ''q'') = (evs1, Inr g)"
    and k: "grok_chat example_bot ?w (lit ''q'') = (evs2, Inr k)"
    and both: "snd (compute_final_response example_bot ?w (lit ''q'') (PyStr (lit ''both_ai'')))
        = Inr (Some (nl @ nl @ replicate 30 box_double_horizontal
                     @ gemini_label @ g @ nl @ nl @ grok_label @ fstr ?w k))"
    by blast
  have "g = lit ''hello''"
    using g by (simp add: gemini_chat_example)
  moreover have "k = PyStr (lit ''hi'')"
    using k by (simp add: grok_chat_example)
  then have "fstr ?w k = lit ''hi''"
    by (simp add: fstr_def)
  ultimately show ?thesis
    using both by simp
qed

text \<open>
  Claim C3 as stated fails: in the mode \<^verbatim>\<open>'gemini'\<close>, with the adapter returning
  \<^verbatim>\<open>hello\<close>, the rendered text is the label followed by \<^verbatim>\<open>hello\<close>, not \<^verbatim>\<open>hello\<close>.
\<close>

theorem single_backend_render_not_bare:
  "gemini_chat example_bot (example_world (PyStr (lit ''hi''))) (lit ''q'')
     = ([GenerateContent (lit ''q'')], Inr (lit ''hello''))
   \<and> snd (compute_final_response example_bot (example_world (PyStr (lit ''hi''))) (lit ''q'')
             (PyStr (lit ''gemini'')))
     = Inr (Some (gemini_label @ lit ''hello''))
   \<and> gemini_label @ lit ''hello'' \<noteq> lit ''hello''"
  by (simp add: final_response_gemini [OF gemini_chat_example] gemini_chat_example
      gemini_label_def nl_def)

text \<open>
  Claim C4, as the code has it. For a session with no prior selection the mode read is the
  fixed default \<^verbatim>\<open>'gemini'\<close>, whether or not Gemini is configured. Handling an update
  that is not a callback query changes no session, so the next read gives the same mode.
\<close>

theorem default_mode_is_gemini:
  assumes "ss user_id (lit ''ai_choice'') = None"
  shows "mode_of ss user_id = PyStr (lit ''gemini'')
       \<and> ((\<forall>d. u \<noteq> CallbackQuery d) \<longrightarrow>
            fst (process_update ai_bot w ss user_id u) = ss
            \<and> mode_of (fst (process_update ai_bot w ss user_id u)) user_id
                = PyStr (lit ''gemini''))"
  using assms mode_of_default [of ss user_id] by (simp add: process_update_non_callback)

theorem default_mode_is_gemini_witness:
  "no_selection 7 (lit ''ai_choice'') = None
   \<and> mode_of no_selection 7 = PyStr (lit ''gemini'')
   \<and> (\<forall>d. TextMessage (lit ''q'') \<noteq> CallbackQuery d)
   \<and> mode_of (fst (process_update example_bot (example_world PyNone) no_selection 7
                     (TextMessage (lit ''q'')))) 7
       = PyStr (lit ''gemini'')"
  using default_mode_is_gemini [of no_selection 7 "TextMessage (lit ''q'')" example_bot
      "example_world PyNone"]
  by (simp add: no_selection_def)

text \<open>
  Claim C4 as stated fails: with only the Grok key in the environment the first available
  provider is Grok, and the mode of a session with no selection is \<^verbatim>\<open>'gemini'\<close>.
\<close>

theorem default_mode_ignores_availability:
  "available_providers (AIChatBot_init grok_only_env) = [Grok]
   \<and> no_selection 7 (lit ''ai_choice'') = None
   \<and> mode_of no_selection 7 = PyStr (lit ''gemini'')
   \<and> mode_of no_selection 7
       \<noteq> PyStr (provider_id (hd (available_providers (AIChatBot_init grok_only_env))))"
proof -
  have a: "available_providers (AIChatBot_init grok_only_env) = [Grok]"
    by (simp add: available_providers_def AIChatBot_init_def grok_only_env_def lit_def)
  have n: "no_selection 7 (lit ''ai_choice'') = None"
    by (simp add: no_selection_def)
  show ?thesis
    using mode_of_default [of no_selection 7] by (simp add: a n mode_literals_distinct)
qed

text \<open>
  Claim C6 at a malformed body. The Grok endpoint answers with status 200 and a JSON body
  whose \<^verbatim>\<open>content\<close> field is the number \<^verbatim>\<open>42\<close>, or \<^verbatim>\<open>null\<close>. \<^verbatim>\<open>grok_chat\<close> returns
  that value, not a failure message, and the reply shows \<^verbatim>\<open>42\<close>, or \<^verbatim>\<open>None\<close>, as if
  it were Grok's answer.
\<close>

theorem grok_chat_non_text_content:
  "grok_chat example_bot (example_world (PyInt 42)) (lit ''q'')
     = ([HttpPost (lit ''k'') (lit ''q'')], Inr (PyInt 42))
   \<and> snd (compute_final_response example_bot (example_world (PyInt 42)) (lit ''q'')
             (PyStr (lit ''grok'')))
     = Inr (Some (grok_label @ lit ''42''))
   \<and> grok_chat example_bot (example_world PyNone) (lit ''q'')
     = ([HttpPost (lit ''k'') (lit ''q'')], Inr PyNone)
   \<and> snd (compute_final_response example_bot (example_world PyNone) (lit ''q'')
             (PyStr (lit ''grok'')))
     = Inr (Some (grok_label @ lit ''None''))"
proof -
  have number: "fstr (example_world (PyInt 42)) (PyInt 42) = lit ''42''"
    by (simp add: fstr_def example_world_def)
  have none: "fstr (example_world PyNone) PyNone = lit ''None''"
    by (simp add: fstr_def example_world_def)
  show ?thesis
    by (simp add: final_response_grok [OF grok_chat_example] grok_chat_example number none)
qed

text \<open>
  Claim C7. For every session whose mode is \<^verbatim>\<open>'gemini'\<close>, handling a text message calls
  the Gemini adapter once and no other adapter, and makes no request to the Grok endpoint.
  Selecting \<^verbatim>\<open>'gemini'\<close> with the button puts the session in that mode.
\<close>

theorem single_gemini_routes_only_to_gemini:
  "(mode_of ss uid = PyStr (lit ''gemini'') \<longrightarrow>
      (\<exists>evs. process_update ai_bot w ss uid (TextMessage m) = (ss, evs, None)
           \<and> filter is_adapter_call evs = [AdapterCall Gemini m]
           \<and> AdapterCall Grok m \<notin> set evs
           \<and> (\<forall>key m'. HttpPost key m' \<notin> set evs)))
   \<and> mode_of (fst (process_update ai_bot w ss uid (CallbackQuery (Some (lit ''gemini''))))) uid
       = PyStr (lit ''gemini'')"
proof (intro conjI impI)
  assume mode: "mode_of ss uid = PyStr (lit ''gemini'')"
  obtain evs1 g where g: "gemini_chat ai_bot w m = (evs1, Inr g)"
    using gemini_chat_never_raises by blast
  let ?evs = "SendAction # (AdapterCall Gemini m # evs1)
                @ map (\<lambda>(fragment, kb). ReplyText fragment kb) (split_message (gemini_label @ g))"
  have "compute_final_response ai_bot w m (get_ai_choice (ss uid))
          = (AdapterCall Gemini m # evs1, Inr (Some (gemini_label @ g)))"
    using mode final_response_gemini [OF g] by (simp add: mode_of_def)
  then have "handle_message ai_bot w (ss uid) (Some m) = (ss uid, ?evs, None)"
    by (rule handle_message_bound)
  then have run: "process_update ai_bot w ss uid (TextMessage m) = (ss, ?evs, None)"
    by (simp add: process_update_def)
  have calls: "filter is_adapter_call ?evs = [AdapterCall Gemini m]"
    by (simp add: gemini_chat_events(1) [OF g] reply_events_not_adapter)
  have no_grok: "AdapterCall Grok m \<notin> set ?evs"
  proof
    assume "AdapterCall Grok m \<in> set ?evs"
    then have "AdapterCall Grok m \<in> set (filter is_adapter_call ?evs)"
      by (simp only: set_filter mem_Collect_eq is_adapter_call.simps simp_thms)
    then show False
      by (simp only: calls) simp
  qed
  have no_post: "\<forall>key m'. HttpPost key m' \<notin> set ?evs"
    using gemini_chat_events(2) [OF g] by auto
  show "\<exists>evs. process_update ai_bot w ss uid (TextMessage m) = (ss, evs, None)
           \<and> filter is_adapter_call evs = [AdapterCall Gemini m]
           \<and> AdapterCall Grok m \<notin> set evs
           \<and> (\<forall>key m'. HttpPost key m' \<notin> set evs)"
    using run calls no_grok no_post by blast
next
  have "Some (lit ''gemini'') \<noteq> Some (lit ''help'')"
    "Some (lit ''gemini'') \<noteq> Some (lit ''start_chat'')"
    by (simp_all add: lit_def)
  from mode_of_selected [OF this]
  show "mode_of (fst (process_update ai_bot w ss uid (CallbackQuery (Some (lit ''gemini''))))) uid
       = PyStr (lit ''gemini'')"
    by simp
qed

theorem single_gemini_routes_only_to_gemini_witness:
  "mode_of no_selection 7 = PyStr (lit ''gemini'')
   \<and> (\<exists>evs. process_update example_bot (example_world PyNone) no_selection 7
               (TextMessage (lit ''q''))
             = (no_selection, evs, None)
           \<and> filter is_adapter_call evs = [AdapterCall Gemini (lit ''q'')]
           \<and> AdapterCall Grok (lit ''q'') \<notin> set evs)"
proof -
  have m: "mode_of no_selection 7 = PyStr (lit ''gemini'')"
    using mode_of_default [of no_selection 7] by (simp add: no_selection_def)
  with single_gemini_routes_only_to_gemini
         [of no_selection 7 example_bot "example_world PyNone" "lit ''q''"]
  show ?thesis
    by blast
qed


text \<open>
  What holds of the sessions. Handling a text message changes no session. If handling an
  update sent by session \<open>s1\<close> changes the mode of a session \<open>s2\<close>, then \<open>s2\<close> is \<open>s1\<close>
  and the update is a callback query whose data is neither \<^verbatim>\<open>'help'\<close> nor
  \<^verbatim>\<open>'start_chat'\<close>. Whatever \<open>s1\<close> sends, the data of every other session stay as they
  are.
\<close>

lemma session_frame:
  "fst (process_update ai_bot w ss s1 (TextMessage m)) = ss
   \<and> (mode_of (fst (process_update ai_bot w ss s1 u)) s2 \<noteq> mode_of ss s2 \<longrightarrow>
        s2 = s1
        \<and> (\<exists>d. u = CallbackQuery d \<and> d \<noteq> Some (lit ''help'') \<and> d \<noteq> Some (lit ''start_chat'')))
   \<and> (s2 \<noteq> s1 \<longrightarrow> fst (process_update ai_bot w ss s1 u) s2 = ss s2)"
proof (intro conjI impI)
  show "fst (process_update ai_bot w ss s1 (TextMessage m)) = ss"
    by (simp add: process_update_non_callback)
next
  assume changed: "mode_of (fst (process_update ai_bot w ss s1 u)) s2 \<noteq> mode_of ss s2"
  show "s2 = s1"
  proof (rule ccontr)
    assume "s2 \<noteq> s1"
    then have "fst (process_update ai_bot w ss s1 u) s2 = ss s2"
      by (rule process_update_other_session)
    with changed show False by (simp add: mode_of_def)
  qed
  show "\<exists>d. u = CallbackQuery d \<and> d \<noteq> Some (lit ''help'') \<and> d \<noteq> Some (lit ''start_chat'')"
  proof (rule ccontr)
    assume none: "\<nexists>d. u = CallbackQuery d \<and> d \<noteq> Some (lit ''help'')
                      \<and> d \<noteq> Some (lit ''start_chat'')"
    have "fst (dispatch ai_bot w u (ss s1)) = ss s1"
    proof (cases "\<forall>d. u \<noteq> CallbackQuery d")
      case True
      then show ?thesis by (rule dispatch_non_callback)
    next
      case False
      then obtain d where u: "u = CallbackQuery d" by blast
      with none have "d = Some (lit ''help'') \<or> d = Some (lit ''start_chat'')" by blast
      from button_handler_no_selection [OF this] u show ?thesis by simp
    qed
    then have "fst (process_update ai_bot w ss s1 u) = ss"
      by (simp add: fst_process_update)
    with changed show False by simp
  qed
next
  assume "s2 \<noteq> s1"
  then show "fst (process_update ai_bot w ss s1 u) s2 = ss s2"
    by (rule process_update_other_session)
qed

text \<open>
  Claim C8 at the bot's own quick-action buttons. User 7 has selected Grok. The reply to
  the next message carries the buttons \<^verbatim>\<open>New Question\<close> and \<^verbatim>\<open>Switch AI\<close> (lines
  277-278), whose data are no mode. Pressing either one runs the code under the comment
  \<^verbatim>\<open># AI selection\<close> (lines 182-184): the session's mode stops being \<^verbatim>\<open>'grok'\<close> and
  becomes the button's data, and the handler ends with \<^verbatim>\<open>KeyError\<close>. So the mode is
  changed by something that is not a mode selection.
\<close>

theorem quick_action_button_changes_mode:
  "mode_of grok_selected 7 = PyStr (lit ''grok'')
   \<and> snd (process_update example_bot (example_world PyNone) grok_selected 7
             (CallbackQuery (Some (lit ''new_question''))))
       = ([AnswerQuery], Some (KeyError (PyStr (lit ''new_question''))))
   \<and> mode_of (fst (process_update example_bot (example_world PyNone) grok_selected 7
                      (CallbackQuery (Some (lit ''new_question''))))) 7
       = PyStr (lit ''new_question'')
   \<and> snd (process_update example_bot (example_world PyNone) grok_selected 7
             (CallbackQuery (Some (lit ''switch_ai''))))
       = ([AnswerQuery], Some (KeyError (PyStr (lit ''switch_ai''))))
   \<and> mode_of (fst (process_update example_bot (example_world PyNone) grok_selected 7
                      (CallbackQuery (Some (lit ''switch_ai''))))) 7
       = PyStr (lit ''switch_ai'')
   \<and> PyStr (lit ''new_question'') \<noteq> PyStr (lit ''grok'')
   \<and> PyStr (lit ''switch_ai'') \<noteq> PyStr (lit ''grok'')"
proof -
  let ?w = "example_world PyNone"
  have "Some (lit ''grok'') \<noteq> Some (lit ''help'')"
    "Some (lit ''grok'') \<noteq> Some (lit ''start_chat'')"
    by (simp_all add: lit_def)
  from mode_of_selected [OF this, of example_bot ?w no_selection 7]
  have before: "mode_of grok_selected 7 = PyStr (lit ''grok'')"
    by (simp add: grok_selected_def)
  have q: "Some (lit ''new_question'')
     \<notin> {Some (lit ''help''), Some (lit ''start_chat''), Some (lit ''gemini''),
        Some (lit ''grok''), Some (lit ''both_ai'')}"
    by (simp add: lit_def)
  have s: "Some (lit ''switch_ai'')
     \<notin> {Some (lit ''help''), Some (lit ''start_chat''), Some (lit ''gemini''),
        Some (lit ''grok''), Some (lit ''both_ai'')}"
    by (simp add: lit_def)
  have run_q: "snd (process_update example_bot ?w grok_selected 7
                      (CallbackQuery (Some (lit ''new_question''))))
                 = ([AnswerQuery], Some (KeyError (PyStr (lit ''new_question''))))"
    by (simp add: process_update_def button_handler_unrecognised [OF q]
        del: button_handler.simps)
  have run_s: "snd (process_update example_bot ?w grok_selected 7
                      (CallbackQuery (Some (lit ''switch_ai''))))
                 = ([AnswerQuery], Some (KeyError (PyStr (lit ''switch_ai''))))"
    by (simp add: process_update_def button_handler_unrecognised [OF s]
        del: button_handler.simps)
  have "Some (lit ''new_question'') \<noteq> Some (lit ''help'')"
    "Some (lit ''new_question'') \<noteq> Some (lit ''start_chat'')"
    using q by simp_all
  from mode_of_selected [OF this, of example_bot ?w grok_selected 7]
  have after_q: "mode_of (fst (process_update example_bot ?w grok_selected 7
                                 (CallbackQuery (Some (lit ''new_question''))))) 7
                   = PyStr (lit ''new_question'')"
    by simp
  have "Some (lit ''switch_ai'') \<noteq> Some (lit ''help'')"
    "Some (lit ''switch_ai'') \<noteq> Some (lit ''start_chat'')"
    using s by simp_all
  from mode_of_selected [OF this, of example_bot ?w grok_selected 7]
  have after_s: "mode_of (fst (process_update example_bot ?w grok_selected 7
                                 (CallbackQuery (Some (lit ''switch_ai''))))) 7
                   = PyStr (lit ''switch_ai'')"
    by simp
  have differ: "PyStr (lit ''new_question'') \<noteq> PyStr (lit ''grok'')"
    "PyStr (lit ''switch_ai'') \<noteq> PyStr (lit ''grok'')"
    using q s by simp_all
  show ?thesis
    using before run_q after_q run_s after_s differ by simp
qed

text \<open>
  Claim C9, as the code has it. In the mode \<^verbatim>\<open>'both_ai'\<close> the handler awaits the Gemini
  adapter before it calls the Grok adapter: with both providers configured, the request to
  Gemini precedes the call of the Grok adapter, and the time spent waiting for the
  providers is the sum of the two durations.
\<close>

theorem both_ai_dispatch_is_sequential:
  assumes "gemini_model ai_bot = Some model" and "grok_api_key ai_bot = Some key" and "key \<noteq> []"
  shows "filter (\<lambda>ev. is_adapter_call ev \<or> is_network_call ev) (fst (both_ai_responses ai_bot w m))
           = [AdapterCall Gemini m, GenerateContent m, AdapterCall Grok m, HttpPost key m]
       \<and> network_time w (fst (both_ai_responses ai_bot w m))
           = duration w (GenerateContent m) + duration w (HttpPost key m)"
  using both_ai_calls_in_sequence [OF assms] both_ai_network_time [OF assms] by simp

theorem both_ai_dispatch_is_sequential_witness:
  "gemini_model example_bot = Some (GenerativeModel (lit ''gemini-pro''))
   \<and> grok_api_key example_bot = Some (lit ''k'') \<and> lit ''k'' \<noteq> []
   \<and> network_time (example_world (PyStr (lit ''hi'')))
        (fst (both_ai_responses example_bot (example_world (PyStr (lit ''hi''))) (lit ''q'')))
      = 2000"
  using both_ai_dispatch_is_sequential [OF example_bot_configured,
      of "example_world (PyStr (lit ''hi''))" "lit ''q''"]
  by (simp add: example_bot_configured example_world_duration)

text \<open>
  Claim C9 as stated fails: with two providers that take 1000 ms each, the handler waits
  2000 ms for them, which is more than the 1000 ms of the slower one.
\<close>

theorem both_ai_latency_not_bounded_by_slowest:
  "duration (example_world (PyStr (lit ''hi''))) (GenerateContent (lit ''q'')) = 1000
   \<and> duration (example_world (PyStr (lit ''hi''))) (HttpPost (lit ''k'') (lit ''q'')) = 1000
   \<and> network_time (example_world (PyStr (lit ''hi'')))
        (fst (both_ai_responses example_bot (example_world (PyStr (lit ''hi''))) (lit ''q'')))
      = 2000
   \<and> \<not> network_time (example_world (PyStr (lit ''hi'')))
        (fst (both_ai_responses example_bot (example_world (PyStr (lit ''hi''))) (lit ''q'')))
      \<le> max (duration (example_world (PyStr (lit ''hi''))) (GenerateContent (lit ''q'')))
            (duration (example_world (PyStr (lit ''hi''))) (HttpPost (lit ''k'') (lit ''q'')))"
  by (simp add: both_ai_network_time [OF example_bot_configured] example_world_duration)

text \<open>
  Claim C10. For every callback query whose data is none of \<^verbatim>\<open>'help'\<close>,
  \<^verbatim>\<open>'start_chat'\<close>, \<^verbatim>\<open>'gemini'\<close>, \<^verbatim>\<open>'grok'\<close>, \<^verbatim>\<open>'both_ai'\<close> (the data
  \<^verbatim>\<open>'switch_ai'\<close> and \<^verbatim>\<open>'new_question'\<close> of the bot's own buttons among them),
  \<^verbatim>\<open>button_handler\<close> stores the data as the session's mode and then raises
  \<^verbatim>\<open>KeyError\<close> at the lookup in \<^verbatim>\<open>ai_info\<close>. From then on every text message of that
  session matches no branch, leaves \<^verbatim>\<open>final_response\<close> unbound, calls no adapter and is
  answered with the generic error text, and the session stays in that state.
\<close>

theorem unrecognised_callback_breaks_session:
  assumes "d \<notin> {Some (lit ''help''), Some (lit ''start_chat''), Some (lit ''gemini''),
                 Some (lit ''grok''), Some (lit ''both_ai'')}"
  shows "\<exists>ss'. process_update ai_bot w ss user_id (CallbackQuery d)
                 = (ss', [AnswerQuery], Some (KeyError (query_data d)))
             \<and> ss' user_id (lit ''ai_choice'') = Some (query_data d)
             \<and> mode_of ss' user_id = query_data d
             \<and> (\<forall>m. compute_final_response ai_bot w m (mode_of ss' user_id) = ([], Inr None))
             \<and> (\<forall>ms. process_messages ai_bot w ss' user_id ms =
                    (ss',
                     map (\<lambda>m. [SendAction,
                               LogError (lit ''Error processing message: ''
                                         @ str_exc w UnboundLocalError),
                               ReplyText error_text False]) ms))"
proof -
  let ?ss' = "ss(user_id := (ss user_id)(lit ''ai_choice'' \<mapsto> query_data d))"
  have run: "process_update ai_bot w ss user_id (CallbackQuery d)
               = (?ss', [AnswerQuery], Some (KeyError (query_data d)))"
    by (simp add: process_update_def button_handler_unrecognised [OF assms]
        del: button_handler.simps)
  have stored: "?ss' user_id (lit ''ai_choice'') = Some (query_data d)"
    by simp
  have mode: "mode_of ?ss' user_id = query_data d"
    by (simp add: mode_of_def get_ai_choice_def dict_get_def)
  have other: "mode_of ?ss' user_id \<noteq> PyStr (lit ''both_ai'')"
    "mode_of ?ss' user_id \<noteq> PyStr (lit ''gemini'')"
    "mode_of ?ss' user_id \<noteq> PyStr (lit ''grok'')"
    using assms by (auto simp only: mode query_data_eq_PyStr)
  have unbound: "\<forall>m. compute_final_response ai_bot w m (mode_of ?ss' user_id) = ([], Inr None)"
    using final_response_unrecognised [OF other] by blast
  have msgs: "\<forall>ms. process_messages ai_bot w ?ss' user_id ms =
                    (?ss',
                     map (\<lambda>m. [SendAction,
                               LogError (lit ''Error processing message: ''
                                         @ str_exc w UnboundLocalError),
                               ReplyText error_text False]) ms)"
    using unrecognised_mode_all_messages [OF other] by blast
  show ?thesis
    using run stored mode unbound msgs by blast
qed

text \<open>At a concrete input: the button \<^verbatim>\<open>Switch AI\<close>, then two messages.\<close>

theorem unrecognised_callback_breaks_session_witness:
  "Some (lit ''switch_ai'')
     \<notin> {Some (lit ''help''), Some (lit ''start_chat''), Some (lit ''gemini''),
        Some (lit ''grok''), Some (lit ''both_ai'')}
   \<and> (\<exists>ss'. process_update example_bot (example_world PyNone) no_selection 7
                (CallbackQuery (Some (lit ''switch_ai'')))
              = (ss', [AnswerQuery], Some (KeyError (PyStr (lit ''switch_ai''))))
            \<and> mode_of ss' 7 = PyStr (lit ''switch_ai'')
            \<and> process_messages example_bot (example_world PyNone) ss' 7 [lit ''a'', lit ''b'']
                = (ss',
                   [[SendAction,
                     LogError (lit ''Error processing message: '' @ lit ''error''),
                     ReplyText error_text False],
                    [SendAction,
                     LogError (lit ''Error processing message: '' @ lit ''error''),
                     ReplyText error_text False]]))"
proof -
  let ?w = "example_world PyNone"
  have h: "Some (lit ''switch_ai'')
     \<notin> {Some (lit ''help''), Some (lit ''start_chat''), Some (lit ''gemini''),
        Some (lit ''grok''), Some (lit ''both_ai'')}"
    by (simp add: lit_def)
  have e: "str_exc ?w UnboundLocalError = lit ''error''"
    by (simp add: example_world_def)
  from unrecognised_callback_breaks_session [OF h, of example_bot ?w no_selection 7]
  obtain ss' where run: "process_update example_bot ?w no_selection 7
                (CallbackQuery (Some (lit ''switch_ai'')))
              = (ss', [AnswerQuery], Some (KeyError (query_data (Some (lit ''switch_ai'')))))"
    and mode: "mode_of ss' 7 = query_data (Some (lit ''switch_ai''))"
    and msgs: "\<forall>ms. process_messages example_bot ?w ss' 7 ms =
                    (ss',
                     map (\<lambda>m. [SendAction,
                               LogError (lit ''Error processing message: ''
                                         @ str_exc ?w UnboundLocalError),
                               ReplyText error_text False]) ms)"
    by blast
  have two: "process_messages example_bot ?w ss' 7 [lit ''a'', lit ''b'']
                = (ss',
                   [[SendAction,
                     LogError (lit ''Error processing message: '' @ lit ''error''),
                     ReplyText error_text False],
                    [SendAction,
                     LogError (lit ''Error processing message: '' @ lit ''error''),
                     ReplyText error_text False]])"
    using spec [OF msgs, of "[lit ''a'', lit ''b'']"]
    by (simp add: e del: process_messages.simps)
  show ?thesis
    using h run mode two by auto
qed


end
